theory Spec2Isabelle
  imports Main "HOL-Library.Sublist"
begin

section \<open>JavaScript values\<close>

text \<open>
  The values that flow through \<^verbatim>\<open>src/index.js\<close> are the tool arguments, the response
  objects of the HTTP client and the values it rejects with. They are modelled as JSON
  values extended with \<^verbatim>\<open>undefined\<close>. An object is the list of its own properties in
  enumeration order. A string is its sequence of UTF-8 bytes.

  A Number is one of four forms, and each Number has one form:
  \<^item> \<open>JNum n\<close>, an integer \<open>n\<close> within the safe range, from \<open>-(2^53 - 1)\<close> to
    \<open>2^53 - 1\<close>; both zeros are \<open>JNum 0\<close>;
  \<^item> \<open>JDecimal negative m e\<close>, any other finite Number: its sign, and the shortest
    decimal \<open>m * 10^e\<close> that denotes its magnitude, which is the decimal the language
    standard prints it from (\<open>m\<close> is positive and not a multiple of 10); 2.5 is
    \<open>JDecimal False 25 (-1)\<close> and 1e21 is \<open>JDecimal False 1 21\<close>;
  \<^item> \<open>JInfinity negative\<close>;
  \<^item> \<open>JNaN\<close>.
\<close>

datatype json =
    JUndefined
  | JNull
  | JBool bool
  | JNum int
  | JDecimal bool nat int
  | JInfinity bool
  | JNaN
  | JStr string
  | JArr "json list"
  | JObj "(string \<times> json) list"

text \<open>ToBoolean: what \<^verbatim>\<open>if (v)\<close>, \<^verbatim>\<open>v || w\<close> and \<^verbatim>\<open>v ? a : b\<close> test.\<close>

fun truthy :: "json \<Rightarrow> bool" where
  "truthy JUndefined = False"
| "truthy JNull = False"
| "truthy (JBool b) = b"
| "truthy (JNum n) = (n \<noteq> 0)"
| "truthy (JDecimal negative m e) = (m \<noteq> 0)"
| "truthy (JInfinity negative) = True"
| "truthy JNaN = False"
| "truthy (JStr s) = (s \<noteq> [])"
| "truthy (JArr xs) = True"
| "truthy (JObj kvs) = True"

text \<open>\<^verbatim>\<open>a || b\<close> on values.\<close>

definition js_or :: "json \<Rightarrow> json \<Rightarrow> json" where
  "js_or a b = (if truthy a then a else b)"

fun nullish :: "json \<Rightarrow> bool" where
  "nullish JUndefined = True"
| "nullish JNull = True"
| "nullish v = False"

subsection \<open>Decimal numerals\<close>

definition digit_char :: "nat \<Rightarrow> char" where
  "digit_char d = ''0123456789'' ! d"

fun string_of_nat :: "nat \<Rightarrow> string" where
  "string_of_nat n =
     (if n < 10 then [digit_char n] else string_of_nat (n div 10) @ [digit_char (n mod 10)])"

declare string_of_nat.simps [simp del]

definition string_of_int :: "int \<Rightarrow> string" where
  "string_of_int i = (if i < 0 then CHR ''-'' # string_of_nat (nat (- i)) else string_of_nat (nat i))"

text \<open>
  Number::toString of the language standard, for the magnitude \<open>m * 10^e\<close>: with \<open>k\<close>
  the number of digits of \<open>m\<close> and \<open>n = k + e\<close>, the digits are written as an integer
  when \<open>k \<le> n \<le> 21\<close>, with a decimal point when \<open>0 < n \<le> 21\<close>, after \<^verbatim>\<open>0.\<close> and
  zeros when \<open>-6 < n \<le> 0\<close>, and in exponent form otherwise.
\<close>

definition decimal_toString :: "nat \<Rightarrow> int \<Rightarrow> string" where
  "decimal_toString m e =
     (let digits = string_of_nat m;
          k = int (length digits);
          n = k + e
      in if k \<le> n \<and> n \<le> 21 then digits @ replicate (nat (n - k)) CHR ''0''
         else if 0 < n \<and> n \<le> 21 then take (nat n) digits @ ''.'' @ drop (nat n) digits
         else if - 6 < n \<and> n \<le> 0 then ''0.'' @ replicate (nat (- n)) CHR ''0'' @ digits
         else (let exponent = (if 0 < n - 1 then ''+'' else ''-'') @ string_of_nat (nat \<bar>n - 1\<bar>)
               in if k = 1 then digits @ ''e'' @ exponent
                  else take 1 digits @ ''.'' @ drop 1 digits @ ''e'' @ exponent))"

definition Number_toString :: "bool \<Rightarrow> nat \<Rightarrow> int \<Rightarrow> string" where
  "Number_toString negative m e = (if negative then ''-'' else []) @ decimal_toString m e"

subsection \<open>ToString, as a template literal applies it\<close>

fun join :: "string \<Rightarrow> string list \<Rightarrow> string" where
  "join sep [] = []"
| "join sep [x] = x"
| "join sep (x # y # ys) = x @ sep @ join sep (y # ys)"

fun toString :: "json \<Rightarrow> string" where
  "toString JUndefined = ''undefined''"
| "toString JNull = ''null''"
| "toString (JBool b) = (if b then ''true'' else ''false'')"
| "toString (JNum n) = string_of_int n"
| "toString (JDecimal negative m e) = Number_toString negative m e"
| "toString (JInfinity negative) = (if negative then ''-Infinity'' else ''Infinity'')"
| "toString JNaN = ''NaN''"
| "toString (JStr s) = s"
| "toString (JArr xs) = join '','' (map (\<lambda>x. if nullish x then [] else toString x) xs)"
| "toString (JObj kvs) = ''[object Object]''"

subsection \<open>JSON.stringify(value, null, 2)\<close>

definition hex_digit :: "nat \<Rightarrow> char" where
  "hex_digit d = ''0123456789abcdef'' ! d"

definition quote_char :: "char \<Rightarrow> string" where
  "quote_char c =
     (if c = CHR 0x22 then [CHR 0x5C, CHR 0x22]
      else if c = CHR 0x5C then [CHR 0x5C, CHR 0x5C]
      else if c = CHR 0x08 then [CHR 0x5C, CHR ''b'']
      else if c = CHR 0x09 then [CHR 0x5C, CHR ''t'']
      else if c = CHR 0x0A then [CHR 0x5C, CHR ''n'']
      else if c = CHR 0x0C then [CHR 0x5C, CHR ''f'']
      else if c = CHR 0x0D then [CHR 0x5C, CHR ''r'']
      else if of_char c < (32::nat)
        then [CHR 0x5C, CHR ''u'', CHR ''0'', CHR ''0'',
              hex_digit (of_char c div 16), hex_digit (of_char c mod 16)]
      else [c])"

definition QuoteJSONString :: "string \<Rightarrow> string" where
  "QuoteJSONString s = CHR 0x22 # concat (map quote_char s) @ [CHR 0x22]"

definition gap :: string where
  "gap = ''  ''"

text \<open>
  \<open>SerializeJSONProperty indent v\<close> is \<open>None\<close> where the algorithm of the language
  standard returns \<^verbatim>\<open>undefined\<close>: such a property is left out of an object, and
  such an element of an array is written \<^verbatim>\<open>null\<close>.
\<close>

fun SerializeJSONProperty :: "string \<Rightarrow> json \<Rightarrow> string option" where
  "SerializeJSONProperty indent JUndefined = None"
| "SerializeJSONProperty indent JNull = Some ''null''"
| "SerializeJSONProperty indent (JBool b) = Some (if b then ''true'' else ''false'')"
| "SerializeJSONProperty indent (JNum n) = Some (string_of_int n)"
| "SerializeJSONProperty indent (JDecimal negative m e) = Some (Number_toString negative m e)"
| "SerializeJSONProperty indent (JInfinity negative) = Some ''null''"
| "SerializeJSONProperty indent JNaN = Some ''null''"
| "SerializeJSONProperty indent (JStr s) = Some (QuoteJSONString s)"
| "SerializeJSONProperty indent (JArr xs) =
     (let stepback = indent;
          indent = indent @ gap;
          partial = map (\<lambda>x. case SerializeJSONProperty indent x of
                                 None \<Rightarrow> ''null'' | Some s \<Rightarrow> s) xs
      in if partial = [] then Some ''[]''
         else Some (''['' @ [CHR 0x0A] @ indent @ join ('','' @ [CHR 0x0A] @ indent) partial
                    @ [CHR 0x0A] @ stepback @ '']''))"
| "SerializeJSONProperty indent (JObj kvs) =
     (let stepback = indent;
          indent = indent @ gap;
          partial = concat (map (\<lambda>kv. case SerializeJSONProperty indent (snd kv) of
                                 None \<Rightarrow> []
                               | Some s \<Rightarrow> [QuoteJSONString (fst kv) @ '': '' @ s]) kvs)
      in if partial = [] then Some ''{}''
         else Some (''{'' @ [CHR 0x0A] @ indent @ join ('','' @ [CHR 0x0A] @ indent) partial
                    @ [CHR 0x0A] @ stepback @ ''}''))"

definition JSON_stringify :: "json \<Rightarrow> string option" where
  "JSON_stringify v = SerializeJSONProperty [] v"

section \<open>Failures\<close>

text \<open>
  \<open>ErrorCode\<close> and \<open>McpError\<close> come from the MCP SDK, which is not part of the
  repository; \<open>McpError c m\<close> is the object built by \<^verbatim>\<open>new McpError(c, m)\<close>, with the
  code and the message given to the constructor. Anything else that is thrown is a
  JavaScript value. An Error object is represented by its own properties;
  \<open>ErrorObject m\<close> is an Error whose message is \<open>m\<close>.
\<close>

datatype ErrorCode =
    ConnectionClosed
  | RequestTimeout
  | ParseError
  | InvalidRequest
  | MethodNotFound
  | InvalidParams
  | InternalError

datatype failure =
    McpError ErrorCode string
  | Thrown json

text \<open>
  The numbers of the SDK's \<^verbatim>\<open>ErrorCode\<close> enumeration.
\<close>

fun ErrorCode_number :: "ErrorCode \<Rightarrow> int" where
  "ErrorCode_number ConnectionClosed = - 32000"
| "ErrorCode_number RequestTimeout = - 32001"
| "ErrorCode_number ParseError = - 32700"
| "ErrorCode_number InvalidRequest = - 32600"
| "ErrorCode_number MethodNotFound = - 32601"
| "ErrorCode_number InvalidParams = - 32602"
| "ErrorCode_number InternalError = - 32603"

definition ErrorObject :: "string \<Rightarrow> json" where
  "ErrorObject m = JObj [(''message'', JStr m)]"

text \<open>Sequencing of steps that may throw: the first failure ends the computation.\<close>

definition andThen :: "failure + 'a \<Rightarrow> ('a \<Rightarrow> failure + 'b) \<Rightarrow> failure + 'b" where
  "andThen r f = (case r of Inl e \<Rightarrow> Inl e | Inr x \<Rightarrow> f x)"

fun mapE :: "('a \<Rightarrow> failure + 'b) \<Rightarrow> 'a list \<Rightarrow> failure + 'b list" where
  "mapE f [] = Inr []"
| "mapE f (x # xs) = andThen (f x) (\<lambda>y. andThen (mapE f xs) (\<lambda>ys. Inr (y # ys)))"

text \<open>
  Property access \<^verbatim>\<open>v.k\<close>. On \<^verbatim>\<open>undefined\<close> and \<^verbatim>\<open>null\<close> it throws a
  TypeError, with the message Node.js gives it. On an object it is the first property
  of that name, or \<^verbatim>\<open>undefined\<close>. The names the source reads are identifiers, none of
  them an index or an inherited property other than \<^verbatim>\<open>length\<close>; the length of a
  string is counted in bytes, which is its length for ASCII text.
\<close>

definition cannot_read :: "string \<Rightarrow> string \<Rightarrow> failure" where
  "cannot_read what k =
     Thrown (ErrorObject (''Cannot read properties of '' @ what @ '' (reading '' @ [CHR 0x27] @ k
                          @ [CHR 0x27] @ '')''))"

fun getProp :: "json \<Rightarrow> string \<Rightarrow> failure + json" where
  "getProp JUndefined k = Inl (cannot_read ''undefined'' k)"
| "getProp JNull k = Inl (cannot_read ''null'' k)"
| "getProp (JObj kvs) k = Inr (case map_of kvs k of None \<Rightarrow> JUndefined | Some v \<Rightarrow> v)"
| "getProp (JArr xs) k = Inr (if k = ''length'' then JNum (int (length xs)) else JUndefined)"
| "getProp (JStr s) k = Inr (if k = ''length'' then JNum (int (length s)) else JUndefined)"
| "getProp (JBool b) k = Inr JUndefined"
| "getProp (JNum n) k = Inr JUndefined"
| "getProp (JDecimal negative m e) k = Inr JUndefined"
| "getProp (JInfinity negative) k = Inr JUndefined"
| "getProp JNaN k = Inr JUndefined"

text \<open>
  Reading \<^verbatim>\<open>message\<close> on what has been thrown. For the object built by
  \<^verbatim>\<open>new McpError(code, message)\<close> it is the string the constructor of the SDK passes
  to \<^verbatim>\<open>Error\<close>, which is \<^verbatim>\<open>`MCP error ${code}: ${message}`\<close>.
\<close>

fun message_property :: "failure \<Rightarrow> failure + json" where
  "message_property (McpError code message) =
     Inr (JStr (''MCP error '' @ string_of_int (ErrorCode_number code) @ '': '' @ message))"
| "message_property (Thrown v) = getProp v ''message''"

text \<open>A chain \<^verbatim>\<open>v.a.b.c\<close>.\<close>

fun getPath :: "json \<Rightarrow> string list \<Rightarrow> failure + json" where
  "getPath v [] = Inr v"
| "getPath v (k # ks) = andThen (getProp v k) (\<lambda>w. getPath w ks)"

text \<open>Optional access \<^verbatim>\<open>v?.k\<close>, for a \<open>v\<close> that has been evaluated.\<close>

definition getOptional :: "json \<Rightarrow> string \<Rightarrow> failure + json" where
  "getOptional v k = (if nullish v then Inr JUndefined else getProp v k)"

text \<open>
  The comparison \<^verbatim>\<open>v > 0\<close> converts \<open>v\<close> with ToNumber. For a string, and for an
  object through its ToString, that is StringToNumber of the runtime, whose only fact
  needed here is taken as the parameter \<open>positive\<close>: whether the string converts to a
  number above zero.
\<close>

fun greater_than_zero :: "(string \<Rightarrow> bool) \<Rightarrow> json \<Rightarrow> bool" where
  "greater_than_zero positive JUndefined = False"
| "greater_than_zero positive JNull = False"
| "greater_than_zero positive (JBool b) = b"
| "greater_than_zero positive (JNum n) = (0 < n)"
| "greater_than_zero positive (JDecimal negative m e) = (\<not> negative \<and> 0 < m)"
| "greater_than_zero positive (JInfinity negative) = (\<not> negative)"
| "greater_than_zero positive JNaN = False"
| "greater_than_zero positive (JStr s) = positive s"
| "greater_than_zero positive (JArr xs) = positive (toString (JArr xs))"
| "greater_than_zero positive (JObj kvs) = positive (toString (JObj kvs))"

section \<open>The HTTP client and the tool-call result\<close>

text \<open>
  \<^verbatim>\<open>habiticaClient\<close> is an axios instance. A call of one of its methods with a URL and,
  for POST and PUT, a request body (\<open>JUndefined\<close> when none is given) resolves to a
  response object or rejects with a failure. Every handler issues one request, so the
  client is a function of the request.
\<close>

datatype http_method = GET | POST | PUT | DELETE

type_synonym client = "http_method \<Rightarrow> string \<Rightarrow> json \<Rightarrow> failure + json"

text \<open>
  One element \<^verbatim>\<open>{type: 'text', text: ...}\<close> of the \<^verbatim>\<open>content\<close> array. The text is
  \<open>None\<close> where the source stores \<^verbatim>\<open>undefined\<close>, which \<^verbatim>\<open>JSON.stringify\<close> returns
  for \<^verbatim>\<open>undefined\<close>.
\<close>

datatype TextContent = TextContent "string option"

type_synonym ToolCallResult = "TextContent list"

section \<open>src/i18n.js\<close>

definition t :: "string \<Rightarrow> string" where
  "t en = en"

text \<open>
  \<^verbatim>\<open>setLanguage(lang)\<close> returns the new value of \<^verbatim>\<open>currentLang\<close>; \<open>toLowerCase\<close>
  is the method of the runtime's strings.
\<close>

definition setLanguage :: "(string \<Rightarrow> string) \<Rightarrow> string option \<Rightarrow> string" where
  "setLanguage toLowerCase lang =
     toLowerCase (case lang of None \<Rightarrow> [] | Some l \<Rightarrow> (if l \<noteq> [] then l else []))"

section \<open>Tool implementation functions of src/index.js\<close>

text \<open>
  Each handler takes the client and its positional arguments as the dispatcher passes
  them, and returns the result it resolves to or the failure it rejects with. A template
  literal applies \<open>toString\<close> to each of its values, in order.
\<close>

definition getUserProfile :: "client \<Rightarrow> failure + ToolCallResult" where
  "getUserProfile habiticaClient =
     andThen (habiticaClient GET ''/user'' JUndefined) (\<lambda>response.
     andThen (getPath response [''data'', ''data'']) (\<lambda>user.
     Inr [TextContent (JSON_stringify user)]))"

definition getTasks :: "client \<Rightarrow> json \<Rightarrow> failure + ToolCallResult" where
  "getTasks habiticaClient type =
     (let endpoint = (if truthy type then ''/tasks/user?type='' @ toString type else ''/tasks/user'')
      in andThen (habiticaClient GET endpoint JUndefined) (\<lambda>response.
         andThen (getProp response ''data'') (\<lambda>body.
         Inr [TextContent (JSON_stringify body)])))"

definition createTask :: "client \<Rightarrow> json \<Rightarrow> failure + ToolCallResult" where
  "createTask habiticaClient taskData =
     andThen (habiticaClient POST ''/tasks/user'' taskData) (\<lambda>response.
     andThen (getPath response [''data'', ''data'']) (\<lambda>task.
     andThen (getProp task ''text'') (\<lambda>task_text.
     andThen (getProp task ''id'') (\<lambda>task_id.
     Inr [TextContent (Some (''Successfully created task: '' @ toString task_text
                             @ '' (ID: '' @ toString task_id @ '')''))]))))"

definition scoreTask :: "client \<Rightarrow> json \<Rightarrow> json \<Rightarrow> failure + ToolCallResult" where
  "scoreTask habiticaClient taskId direction_arg =
     (let direction = (if direction_arg = JUndefined then JStr ''up'' else direction_arg)
      in andThen (habiticaClient POST
                    (''/tasks/'' @ toString taskId @ ''/score/'' @ toString direction) JUndefined)
           (\<lambda>response.
         andThen (getPath response [''data'', ''data'']) (\<lambda>result.
         let message = ''Task completed! '' in
         andThen (getProp result ''exp'') (\<lambda>exp.
         let message = (if truthy exp then message @ ''Gained '' @ toString exp @ '' XP ''
                        else message) in
         andThen (getProp result ''gp'') (\<lambda>gp.
         let message = (if truthy gp then message @ ''Gained '' @ toString gp @ '' gold ''
                        else message) in
         andThen (getProp result ''lvl'') (\<lambda>lvl.
         let message = (if truthy lvl then message @ ''Leveled up to '' @ toString lvl @ ''! ''
                        else message) in
         Inr [TextContent (Some message)]))))))"

definition updateTask :: "client \<Rightarrow> json \<Rightarrow> json \<Rightarrow> failure + ToolCallResult" where
  "updateTask habiticaClient taskId updates =
     andThen (habiticaClient PUT (''/tasks/'' @ toString taskId) updates) (\<lambda>response.
     andThen (getPath response [''data'', ''data'']) (\<lambda>task.
     andThen (getProp task ''text'') (\<lambda>task_text.
     Inr [TextContent (Some (''Successfully updated task: '' @ toString task_text))])))"

definition deleteTask :: "client \<Rightarrow> json \<Rightarrow> failure + ToolCallResult" where
  "deleteTask habiticaClient taskId =
     andThen (habiticaClient DELETE (''/tasks/'' @ toString taskId) JUndefined) (\<lambda>response.
     Inr [TextContent (Some (''Successfully deleted task (ID: '' @ toString taskId @ '')''))])"

definition getStats :: "client \<Rightarrow> failure + ToolCallResult" where
  "getStats habiticaClient =
     andThen (habiticaClient GET ''/user'' JUndefined) (\<lambda>response.
     andThen (getPath response [''data'', ''data'', ''stats'']) (\<lambda>stats.
     Inr [TextContent (JSON_stringify stats)]))"

definition buyReward :: "client \<Rightarrow> json \<Rightarrow> failure + ToolCallResult" where
  "buyReward habiticaClient key =
     andThen (habiticaClient POST (''/user/buy/'' @ toString key) JUndefined) (\<lambda>response.
     andThen (getPath response [''data'', ''data'']) (\<lambda>result.
     andThen (getProp result ''gp'') (\<lambda>gp.
     Inr [TextContent (Some (''Successfully bought reward! Remaining gold: '' @ toString gp))])))"

definition getInventory :: "client \<Rightarrow> failure + ToolCallResult" where
  "getInventory habiticaClient =
     andThen (habiticaClient GET ''/user'' JUndefined) (\<lambda>response.
     andThen (getPath response [''data'', ''data'', ''items'']) (\<lambda>items.
     Inr [TextContent (JSON_stringify items)]))"

definition castSpell :: "client \<Rightarrow> json \<Rightarrow> json \<Rightarrow> failure + ToolCallResult" where
  "castSpell habiticaClient spellId targetId =
     (let endpoint = (if truthy targetId
                      then ''/user/class/cast/'' @ toString spellId @ ''?targetId='' @ toString targetId
                      else ''/user/class/cast/'' @ toString spellId)
      in andThen (habiticaClient POST endpoint JUndefined) (\<lambda>response.
         Inr [TextContent (Some (''Successfully cast spell: '' @ toString spellId))]))"

definition getTags :: "client \<Rightarrow> failure + ToolCallResult" where
  "getTags habiticaClient =
     andThen (habiticaClient GET ''/tags'' JUndefined) (\<lambda>response.
     andThen (getProp response ''data'') (\<lambda>body.
     Inr [TextContent (JSON_stringify body)]))"

definition createTag :: "client \<Rightarrow> json \<Rightarrow> failure + ToolCallResult" where
  "createTag habiticaClient name =
     andThen (habiticaClient POST ''/tags'' (JObj [(''name'', name)])) (\<lambda>response.
     andThen (getPath response [''data'', ''data'']) (\<lambda>tag.
     andThen (getProp tag ''name'') (\<lambda>tag_name.
     andThen (getProp tag ''id'') (\<lambda>tag_id.
     Inr [TextContent (Some (''Successfully created tag: '' @ toString tag_name
                             @ '' (ID: '' @ toString tag_id @ '')''))]))))"

definition getPets :: "client \<Rightarrow> failure + ToolCallResult" where
  "getPets habiticaClient =
     andThen (habiticaClient GET ''/user'' JUndefined) (\<lambda>response.
     andThen (getPath response [''data'', ''data'', ''items'', ''pets'']) (\<lambda>pets.
     Inr [TextContent (JSON_stringify pets)]))"

definition feedPet :: "client \<Rightarrow> json \<Rightarrow> json \<Rightarrow> failure + ToolCallResult" where
  "feedPet habiticaClient pet food =
     andThen (habiticaClient POST (''/user/feed/'' @ toString pet @ ''/'' @ toString food) JUndefined)
       (\<lambda>response.
     andThen (getPath response [''data'', ''data'']) (\<lambda>result.
     let message = ''Successfully fed pet '' @ toString pet @ ''! '' in
     andThen (getProp result ''message'') (\<lambda>result_message.
     let message = (if truthy result_message then message @ toString result_message
                    else message) in
     Inr [TextContent (Some message)])))"

definition hatchPet :: "client \<Rightarrow> json \<Rightarrow> json \<Rightarrow> failure + ToolCallResult" where
  "hatchPet habiticaClient egg hatchingPotion =
     andThen (habiticaClient POST
                (''/user/hatch/'' @ toString egg @ ''/'' @ toString hatchingPotion) JUndefined)
       (\<lambda>response.
     andThen (getPath response [''data'', ''data'']) (\<lambda>result.
     Inr [TextContent (Some (''Successfully hatched pet! Got '' @ toString egg @ ''-''
                             @ toString hatchingPotion))]))"

definition getMounts :: "client \<Rightarrow> failure + ToolCallResult" where
  "getMounts habiticaClient =
     andThen (habiticaClient GET ''/user'' JUndefined) (\<lambda>response.
     andThen (getPath response [''data'', ''data'', ''items'', ''mounts'']) (\<lambda>mounts.
     Inr [TextContent (JSON_stringify mounts)]))"

definition equipItem :: "client \<Rightarrow> json \<Rightarrow> json \<Rightarrow> failure + ToolCallResult" where
  "equipItem habiticaClient type key =
     andThen (habiticaClient POST (''/user/equip/'' @ toString type @ ''/'' @ toString key) JUndefined)
       (\<lambda>response.
     Inr [TextContent (Some (''Successfully equipped '' @ toString type @ '': '' @ toString key))])"

definition getNotifications :: "client \<Rightarrow> failure + ToolCallResult" where
  "getNotifications habiticaClient =
     andThen (habiticaClient GET ''/notifications'' JUndefined) (\<lambda>response.
     andThen (getProp response ''data'') (\<lambda>body.
     Inr [TextContent (JSON_stringify body)]))"

definition readNotification :: "client \<Rightarrow> json \<Rightarrow> failure + ToolCallResult" where
  "readNotification habiticaClient notificationId =
     andThen (habiticaClient POST (''/notifications/'' @ toString notificationId @ ''/read'') JUndefined)
       (\<lambda>response.
     Inr [TextContent (Some (''Successfully marked notification as read (ID: ''
                             @ toString notificationId @ '')''))])"

definition getShop :: "client \<Rightarrow> json \<Rightarrow> failure + ToolCallResult" where
  "getShop habiticaClient shopType_arg =
     (let shopType = (if shopType_arg = JUndefined then JStr ''market'' else shopType_arg)
      in andThen (habiticaClient GET (''/shops/'' @ toString shopType) JUndefined) (\<lambda>response.
         andThen (getProp response ''data'') (\<lambda>body.
         Inr [TextContent (JSON_stringify body)])))"

definition buyItem :: "client \<Rightarrow> json \<Rightarrow> json \<Rightarrow> failure + ToolCallResult" where
  "buyItem habiticaClient itemKey quantity_arg =
     (let quantity = (if quantity_arg = JUndefined then JNum 1 else quantity_arg)
      in andThen (habiticaClient POST (''/user/buy/'' @ toString itemKey)
                    (JObj [(''quantity'', quantity)])) (\<lambda>response.
         andThen (getPath response [''data'', ''data'']) (\<lambda>result.
         andThen (getProp result ''gp'') (\<lambda>gp.
         Inr [TextContent (Some (''Successfully bought '' @ toString itemKey @ '' x''
                                 @ toString quantity @ ''! Remaining gold: '' @ toString gp))]))))"

text \<open>The two glyphs of the checklist listing, U+2713 and U+25CB, in UTF-8.\<close>

definition check_mark :: string where
  "check_mark = [CHR 0xE2, CHR 0x9C, CHR 0x93]"

definition white_circle :: string where
  "white_circle = [CHR 0xE2, CHR 0x97, CHR 0x8B]"

text \<open>The callback given to \<^verbatim>\<open>checklist.map\<close> in \<^verbatim>\<open>getTaskChecklist\<close>.\<close>

definition checklist_line :: "json \<Rightarrow> failure + string" where
  "checklist_line item =
     andThen (getProp item ''completed'') (\<lambda>completed.
     andThen (getProp item ''text'') (\<lambda>item_text.
     andThen (getProp item ''id'') (\<lambda>item_id.
     Inr ((if truthy completed then check_mark else white_circle) @ '' '' @ toString item_text
          @ '' (ID: '' @ toString item_id @ '')''))))"

text \<open>
  \<^verbatim>\<open>checklist.map(...)\<close>: on an array the callback runs on each element in order; any
  other value that reaches the call has no callable \<^verbatim>\<open>map\<close>, and the call throws.
\<close>

definition checklist_map :: "json \<Rightarrow> failure + string list" where
  "checklist_map checklist =
     (case checklist of
        JArr items \<Rightarrow> mapE checklist_line items
      | _ \<Rightarrow> Inl (Thrown (ErrorObject ''checklist.map is not a function'')))"

definition getTaskChecklist :: "client \<Rightarrow> (string \<Rightarrow> bool) \<Rightarrow> json \<Rightarrow> failure + ToolCallResult" where
  "getTaskChecklist habiticaClient positive taskId =
     andThen (habiticaClient GET (''/tasks/'' @ toString taskId) JUndefined) (\<lambda>response.
     andThen (getPath response [''data'', ''data'']) (\<lambda>task.
     andThen (getProp task ''checklist'') (\<lambda>task_checklist.
     let checklist = js_or task_checklist (JArr []) in
     andThen (getProp task ''text'') (\<lambda>task_text.
     andThen (getProp checklist ''length'') (\<lambda>checklist_length.
     let header = t (''Task: '' @ toString task_text @ [CHR 0x0A] @ ''Checklist items (''
                     @ toString checklist_length @ ''):'') in
     andThen (if greater_than_zero positive checklist_length
              then andThen (checklist_map checklist) (\<lambda>lines. Inr (join [CHR 0x0A] lines))
              else Inr (t ''No checklist items found'')) (\<lambda>listing.
     Inr [TextContent (Some header), TextContent (Some listing)]))))))"

definition addChecklistItem :: "client \<Rightarrow> json \<Rightarrow> json \<Rightarrow> failure + ToolCallResult" where
  "addChecklistItem habiticaClient taskId text_arg =
     andThen (habiticaClient POST (''/tasks/'' @ toString taskId @ ''/checklist'')
                (JObj [(''text'', text_arg)])) (\<lambda>response.
     andThen (getPath response [''data'', ''data'']) (\<lambda>item.
     andThen (getProp item ''text'') (\<lambda>item_text.
     andThen (getProp item ''id'') (\<lambda>item_id.
     Inr [TextContent (Some (t (''Successfully added checklist item: '' @ toString item_text
                                @ '' (ID: '' @ toString item_id @ '')'')))]))))"

definition updateChecklistItem :: "client \<Rightarrow> json \<Rightarrow> json \<Rightarrow> json \<Rightarrow> failure + ToolCallResult" where
  "updateChecklistItem habiticaClient taskId itemId updates =
     andThen (habiticaClient PUT
                (''/tasks/'' @ toString taskId @ ''/checklist/'' @ toString itemId) updates)
       (\<lambda>response.
     andThen (getPath response [''data'', ''data'']) (\<lambda>item.
     andThen (getProp item ''text'') (\<lambda>item_text.
     Inr [TextContent (Some (t (''Successfully updated checklist item: '' @ toString item_text)))])))"

definition deleteChecklistItem :: "client \<Rightarrow> json \<Rightarrow> json \<Rightarrow> failure + ToolCallResult" where
  "deleteChecklistItem habiticaClient taskId itemId =
     andThen (habiticaClient DELETE
                (''/tasks/'' @ toString taskId @ ''/checklist/'' @ toString itemId) JUndefined)
       (\<lambda>response.
     Inr [TextContent (Some (t (''Successfully deleted checklist item (ID: '' @ toString itemId
                                @ '')'')))])"

definition scoreChecklistItem :: "client \<Rightarrow> json \<Rightarrow> json \<Rightarrow> failure + ToolCallResult" where
  "scoreChecklistItem habiticaClient taskId itemId =
     andThen (habiticaClient POST
                (''/tasks/'' @ toString taskId @ ''/checklist/'' @ toString itemId @ ''/score'')
                JUndefined) (\<lambda>response.
     andThen (getPath response [''data'', ''data'']) (\<lambda>item.
     andThen (getProp item ''text'') (\<lambda>item_text.
     andThen (getProp item ''completed'') (\<lambda>item_completed.
     Inr [TextContent (Some (t (''Successfully scored checklist item: '' @ toString item_text
                                @ '' (completed: '' @ toString item_completed @ '')'')))]))))"

section \<open>The tool registry\<close>

text \<open>
  \<^verbatim>\<open>tools\<close> is an array of 26 descriptors \<^verbatim>\<open>{name, description, inputSchema}\<close>.
  \<open>tool_names\<close> is the \<^verbatim>\<open>name\<close> of each descriptor, in the order of the array.
\<close>

definition tool_names :: "string list" where
  "tool_names =
     [''get_user_profile'', ''get_tasks'', ''create_task'', ''score_task'', ''update_task'',
      ''delete_task'', ''get_stats'', ''buy_reward'', ''get_inventory'', ''cast_spell'',
      ''get_tags'', ''create_tag'', ''get_pets'', ''feed_pet'', ''hatch_pet'', ''get_mounts'',
      ''equip_item'', ''get_notifications'', ''read_notification'', ''get_shop'', ''buy_item'',
      ''add_checklist_item'', ''update_checklist_item'', ''delete_checklist_item'',
      ''get_task_checklist'', ''score_checklist_item'']"

text \<open>The descriptor of \<^verbatim>\<open>score_task\<close>, as the object literal of the array gives it.\<close>

definition score_task_descriptor :: json where
  "score_task_descriptor =
     JObj [(''name'', JStr ''score_task''),
           (''description'', JStr (t ''Score task / habit'')),
           (''inputSchema'',
            JObj [(''type'', JStr ''object''),
                  (''properties'',
                   JObj [(''taskId'',
                          JObj [(''type'', JStr ''string''),
                                (''description'', JStr (t ''Task ID''))]),
                         (''direction'',
                          JObj [(''type'', JStr ''string''),
                                (''enum'', JArr [JStr ''up'', JStr ''down'']),
                                (''description'',
                                 JStr (t ''Direction (up=positive, down=negative, habits only)''))])]),
                  (''required'', JArr [JStr ''taskId''])])]"

section \<open>The tool call handler\<close>

text \<open>
  The handler is given \<^verbatim>\<open>name\<close> and \<^verbatim>\<open>args\<close>, the two parts of
  \<^verbatim>\<open>request.params\<close>; \<open>args\<close> is \<open>JUndefined\<close> when the request has no arguments.
  The \<^verbatim>\<open>switch (name)\<close> of the handler: its case labels in source order, each with the
  call it returns. Every case returns, so the first label equal to the name decides.
  A handler's arguments are read from \<^verbatim>\<open>args\<close> before the call, left to right.
\<close>

type_synonym tool_case = "client \<Rightarrow> (string \<Rightarrow> bool) \<Rightarrow> json \<Rightarrow> failure + ToolCallResult"

definition switch_cases :: "(string \<times> tool_case) list" where
  "switch_cases =
     [(''get_user_profile'', \<lambda>habiticaClient positive args.
         getUserProfile habiticaClient),
      (''get_tasks'', \<lambda>habiticaClient positive args.
         andThen (getProp args ''type'') (\<lambda>a. getTasks habiticaClient a)),
      (''create_task'', \<lambda>habiticaClient positive args.
         createTask habiticaClient args),
      (''score_task'', \<lambda>habiticaClient positive args.
         andThen (getProp args ''taskId'') (\<lambda>a. andThen (getProp args ''direction'') (\<lambda>b.
         scoreTask habiticaClient a b))),
      (''update_task'', \<lambda>habiticaClient positive args.
         andThen (getProp args ''taskId'') (\<lambda>a. updateTask habiticaClient a args)),
      (''delete_task'', \<lambda>habiticaClient positive args.
         andThen (getProp args ''taskId'') (\<lambda>a. deleteTask habiticaClient a)),
      (''get_stats'', \<lambda>habiticaClient positive args.
         getStats habiticaClient),
      (''buy_reward'', \<lambda>habiticaClient positive args.
         andThen (getProp args ''key'') (\<lambda>a. buyReward habiticaClient a)),
      (''get_inventory'', \<lambda>habiticaClient positive args.
         getInventory habiticaClient),
      (''cast_spell'', \<lambda>habiticaClient positive args.
         andThen (getProp args ''spellId'') (\<lambda>a. andThen (getProp args ''targetId'') (\<lambda>b.
         castSpell habiticaClient a b))),
      (''get_tags'', \<lambda>habiticaClient positive args.
         getTags habiticaClient),
      (''create_tag'', \<lambda>habiticaClient positive args.
         andThen (getProp args ''name'') (\<lambda>a. createTag habiticaClient a)),
      (''get_pets'', \<lambda>habiticaClient positive args.
         getPets habiticaClient),
      (''feed_pet'', \<lambda>habiticaClient positive args.
         andThen (getProp args ''pet'') (\<lambda>a. andThen (getProp args ''food'') (\<lambda>b.
         feedPet habiticaClient a b))),
      (''hatch_pet'', \<lambda>habiticaClient positive args.
         andThen (getProp args ''egg'') (\<lambda>a. andThen (getProp args ''hatchingPotion'') (\<lambda>b.
         hatchPet habiticaClient a b))),
      (''get_mounts'', \<lambda>habiticaClient positive args.
         getMounts habiticaClient),
      (''equip_item'', \<lambda>habiticaClient positive args.
         andThen (getProp args ''type'') (\<lambda>a. andThen (getProp args ''key'') (\<lambda>b.
         equipItem habiticaClient a b))),
      (''get_notifications'', \<lambda>habiticaClient positive args.
         getNotifications habiticaClient),
      (''read_notification'', \<lambda>habiticaClient positive args.
         andThen (getProp args ''notificationId'') (\<lambda>a. readNotification habiticaClient a)),
      (''get_shop'', \<lambda>habiticaClient positive args.
         andThen (getProp args ''shopType'') (\<lambda>a. getShop habiticaClient a)),
      (''buy_item'', \<lambda>habiticaClient positive args.
         andThen (getProp args ''itemKey'') (\<lambda>a. andThen (getProp args ''quantity'') (\<lambda>b.
         buyItem habiticaClient a b))),
      (''get_task_checklist'', \<lambda>habiticaClient positive args.
         andThen (getProp args ''taskId'') (\<lambda>a. getTaskChecklist habiticaClient positive a)),
      (''add_checklist_item'', \<lambda>habiticaClient positive args.
         andThen (getProp args ''taskId'') (\<lambda>a. andThen (getProp args ''text'') (\<lambda>b.
         addChecklistItem habiticaClient a b))),
      (''update_checklist_item'', \<lambda>habiticaClient positive args.
         andThen (getProp args ''taskId'') (\<lambda>a. andThen (getProp args ''itemId'') (\<lambda>b.
         updateChecklistItem habiticaClient a b args))),
      (''delete_checklist_item'', \<lambda>habiticaClient positive args.
         andThen (getProp args ''taskId'') (\<lambda>a. andThen (getProp args ''itemId'') (\<lambda>b.
         deleteChecklistItem habiticaClient a b))),
      (''score_checklist_item'', \<lambda>habiticaClient positive args.
         andThen (getProp args ''taskId'') (\<lambda>a. andThen (getProp args ''itemId'') (\<lambda>b.
         scoreChecklistItem habiticaClient a b)))]"

definition case_labels :: "string list" where
  "case_labels = map fst switch_cases"

text \<open>The \<^verbatim>\<open>try\<close> block: the selected case, or the \<^verbatim>\<open>default\<close> case.\<close>

definition try_block :: "client \<Rightarrow> (string \<Rightarrow> bool) \<Rightarrow> string \<Rightarrow> json \<Rightarrow> failure + ToolCallResult" where
  "try_block habiticaClient positive name args =
     (case map_of switch_cases name of
        Some tool_case \<Rightarrow> tool_case habiticaClient positive args
      | None \<Rightarrow> Inl (McpError MethodNotFound (''Unknown tool: '' @ name)))"

text \<open>
  \<^verbatim>\<open>error.response?.data?.message || error.message || 'Unknown error'\<close>, for a thrown
  value \<open>error\<close> that is not an McpError. Reading \<^verbatim>\<open>error.response\<close> throws when
  \<open>error\<close> is \<^verbatim>\<open>undefined\<close> or \<^verbatim>\<open>null\<close>.
\<close>

definition errorMessage :: "json \<Rightarrow> failure + json" where
  "errorMessage error =
     andThen (getProp error ''response'') (\<lambda>response.
     andThen (getOptional response ''data'') (\<lambda>data.
     andThen (getOptional data ''message'') (\<lambda>remote_message.
     if truthy remote_message then Inr remote_message
     else andThen (getProp error ''message'') (\<lambda>generic_message.
          Inr (js_or generic_message (JStr ''Unknown error''))))))"

text \<open>The \<^verbatim>\<open>catch\<close> block: the failure it throws for the failure it caught.\<close>

definition catch_block :: "failure \<Rightarrow> failure" where
  "catch_block caught =
     (case caught of
        McpError code message \<Rightarrow> McpError code message
      | Thrown error \<Rightarrow>
          (case errorMessage error of
             Inl type_error \<Rightarrow> type_error
           | Inr message \<Rightarrow>
               McpError InternalError (''Habitica API error: '' @ toString message)))"

definition CallTool :: "client \<Rightarrow> (string \<Rightarrow> bool) \<Rightarrow> string \<Rightarrow> json \<Rightarrow> failure + ToolCallResult" where
  "CallTool habiticaClient positive name args =
     (case try_block habiticaClient positive name args of
        Inr result \<Rightarrow> Inr result
      | Inl caught \<Rightarrow> Inl (catch_block caught))"

section \<open>Process startup\<close>

text \<open>
  The statements of the module, in order, as the effects they have outside it.
  \<open>env\<close> is \<^verbatim>\<open>process.env\<close> once \<^verbatim>\<open>dotenv/config\<close> has been imported: a variable is
  a string or unset. \<open>connect\<close> is the outcome of \<^verbatim>\<open>server.connect(transport)\<close>.
  \<^verbatim>\<open>process.exit\<close> ends the process, so no statement after it has an effect.
\<close>

datatype request_schema = ListToolsRequestSchema | CallToolRequestSchema

datatype effect =
    ConsoleError string
  | ConsoleErrorWith string failure
  | ProcessExit int
  | AxiosCreate string "(string \<times> string) list"
  | NewServer string string
  | SetRequestHandler request_schema
  | NewStdioServerTransport
  | ServerConnect

record process_state =
  currentLang :: string
  effects :: "effect list"

definition HABITICA_API_BASE :: string where
  "HABITICA_API_BASE = ''https://habitica.com/api/v3''"

text \<open>\<^verbatim>\<open>!v\<close> for a variable of the environment: unset or the empty string.\<close>

definition env_not :: "string option \<Rightarrow> bool" where
  "env_not v = (case v of None \<Rightarrow> True | Some s \<Rightarrow> s = [])"

definition env_or :: "string option \<Rightarrow> string option \<Rightarrow> string option" where
  "env_or a b = (if env_not a then b else a)"

definition env_toString :: "string option \<Rightarrow> string" where
  "env_toString v = (case v of None \<Rightarrow> ''undefined'' | Some s \<Rightarrow> s)"

definition runServer :: "(failure + unit) \<Rightarrow> effect list" where
  "runServer connect =
     [NewStdioServerTransport, ServerConnect] @
     (case connect of
        Inr u \<Rightarrow> [ConsoleError ''Habitica MCP server started'']
      | Inl error \<Rightarrow> [ConsoleErrorWith ''Server failed to start:'' error, ProcessExit 1])"

definition startup ::
  "(string \<Rightarrow> string) \<Rightarrow> (string \<Rightarrow> string option) \<Rightarrow> (failure + unit) \<Rightarrow> process_state" where
  "startup toLowerCase env connect =
     (let HABITICA_USER_ID = env ''HABITICA_USER_ID'';
          HABITICA_API_TOKEN = env ''HABITICA_API_TOKEN'';
          lang = setLanguage toLowerCase
                   (env_or (env_or (env ''MCP_LANG'') (env ''LANG'')) (Some ''en''))
      in if env_not HABITICA_USER_ID \<or> env_not HABITICA_API_TOKEN
         then \<lparr>currentLang = lang,
               effects =
                 [ConsoleError (t ''Error: Please set HABITICA_USER_ID and HABITICA_API_TOKEN environment variables''),
                  ProcessExit 1]\<rparr>
         else \<lparr>currentLang = lang,
               effects =
                 [AxiosCreate HABITICA_API_BASE
                    [(''x-api-user'', env_toString HABITICA_USER_ID),
                     (''x-api-key'', env_toString HABITICA_API_TOKEN),
                     (''x-client'', env_toString HABITICA_USER_ID @ ''-MCP-Server''),
                     (''Content-Type'', ''application/json'')],
                  NewServer ''habitica-mcp-server'' ''0.0.1'',
                  SetRequestHandler ListToolsRequestSchema,
                  SetRequestHandler CallToolRequestSchema]
                 @ runServer connect\<rparr>)"

section \<open>Notions used to state the properties\<close>

text \<open>The value of \<^verbatim>\<open>v.k\<close> where the access does not throw.\<close>

definition field :: "json \<Rightarrow> string \<Rightarrow> json" where
  "field v k = (case getProp v k of Inl e \<Rightarrow> JUndefined | Inr w \<Rightarrow> w)"

text \<open>
  The line the specification gives for one checklist item: a glyph for its completion
  state, then its text and its ID.
\<close>

definition spec_checklist_line :: "json \<Rightarrow> string" where
  "spec_checklist_line item =
     (if truthy (field item ''completed'') then check_mark else white_circle)
     @ '' '' @ toString (field item ''text'') @ '' (ID: '' @ toString (field item ''id'') @ '')''"

text \<open>A value is a Number.\<close>

fun is_number :: "json \<Rightarrow> bool" where
  "is_number (JNum n) = True"
| "is_number (JDecimal negative m e) = True"
| "is_number (JInfinity negative) = True"
| "is_number JNaN = True"
| "is_number v = False"

text \<open>
  The values on which \<open>toString\<close> is the conversion of the language: the Numbers in
  the form given above (a safe integer; a decimal of at most 17 digits that is not a
  safe integer, between the least and the greatest magnitude of a Number), an array of
  such values, and an object without a property named \<^verbatim>\<open>toString\<close> of its own (with
  one, which is not callable, the conversion throws).
\<close>

fun toString_exact :: "json \<Rightarrow> bool" where
  "toString_exact JUndefined = True"
| "toString_exact JNull = True"
| "toString_exact (JBool b) = True"
| "toString_exact (JNum n) = (- 9007199254740991 \<le> n \<and> n \<le> 9007199254740991)"
| "toString_exact (JDecimal negative m e) =
     (0 < m \<and> m mod 10 \<noteq> 0 \<and> (e < 0 \<or> 9007199254740991 < int m * 10 ^ nat e)
      \<and> length (string_of_nat m) \<le> 17
      \<and> - 323 \<le> int (length (string_of_nat m)) + e
      \<and> int (length (string_of_nat m)) + e \<le> 309)"
| "toString_exact (JInfinity negative) = True"
| "toString_exact JNaN = True"
| "toString_exact (JStr s) = True"
| "toString_exact (JArr xs) = list_all toString_exact xs"
| "toString_exact (JObj kvs) = (''toString'' \<notin> set (map fst kvs))"

section \<open>Sample inputs\<close>

text \<open>
  Test doubles: a client whose every request rejects, or resolves, with a fixed value, and
  a client that rejects every request with an Error whose message is the requested URL.
\<close>

definition rejecting_client :: "failure \<Rightarrow> client" where
  "rejecting_client error = (\<lambda>method url body. Inl error)"

definition resolving_client :: "json \<Rightarrow> client" where
  "resolving_client response = (\<lambda>method url body. Inr response)"

definition echo_client :: client where
  "echo_client = (\<lambda>method url body. Inl (Thrown (ErrorObject url)))"

definition never_positive :: "string \<Rightarrow> bool" where
  "never_positive s = False"

text \<open>The remote error \<^verbatim>\<open>{response: {data: {message: "X"}}}\<close>.\<close>

definition remote_error_X :: json where
  "remote_error_X = JObj [(''response'', JObj [(''data'', JObj [(''message'', JStr ''X'')])])]"

text \<open>A task with a checklist of two items, and the response that carries it.\<close>

definition sample_items :: "json list" where
  "sample_items =
     [JObj [(''completed'', JBool True), (''text'', JStr ''buy milk''), (''id'', JStr ''i1'')],
      JObj [(''completed'', JBool False), (''text'', JStr ''call home''), (''id'', JStr ''i2'')]]"

definition sample_task :: json where
  "sample_task = JObj [(''text'', JStr ''Errands''), (''checklist'', JArr sample_items)]"

definition sample_task_response :: json where
  "sample_task_response = JObj [(''data'', JObj [(''data'', sample_task)])]"

text \<open>
  Responses to a scoring request: one with all three fields, one with \<^verbatim>\<open>exp: 0\<close> and
  \<^verbatim>\<open>gp: 2.5\<close>, and one with \<^verbatim>\<open>exp: 0\<close> and the string \<^verbatim>\<open>"0 XP"\<close> for \<^verbatim>\<open>gp\<close>.
\<close>

definition sample_score_response :: json where
  "sample_score_response =
     JObj [(''data'', JObj [(''success'', JBool True),
                            (''data'', JObj [(''exp'', JNum 10), (''gp'', JNum 2), (''lvl'', JNum 5)])])]"

definition fractional_gp_result :: json where
  "fractional_gp_result = JObj [(''exp'', JNum 0), (''gp'', JDecimal False 25 (- 1))]"

definition fractional_gp_response :: json where
  "fractional_gp_response =
     JObj [(''data'', JObj [(''success'', JBool True), (''data'', fractional_gp_result)])]"

definition string_gp_result :: json where
  "string_gp_result = JObj [(''exp'', JNum 0), (''gp'', JStr ''0 XP'')]"

definition string_gp_response :: json where
  "string_gp_response =
     JObj [(''data'', JObj [(''success'', JBool True), (''data'', string_gp_result)])]"

text \<open>
  The body \<^verbatim>\<open>{"data":[{"id":"t1","name":"Health"}]}\<close> of the \<^verbatim>\<open>/tags\<close> endpoint, and
  its serialization with an indentation of two spaces.
\<close>

definition tags_body :: json where
  "tags_body = JObj [(''data'', JArr [JObj [(''id'', JStr ''t1''), (''name'', JStr ''Health'')]])]"

definition tags_text :: string where
  "tags_text =
     ''{'' @ [CHR 0x0A]
     @ ''  '' @ [CHR 0x22] @ ''data'' @ [CHR 0x22] @ '': ['' @ [CHR 0x0A]
     @ ''    {'' @ [CHR 0x0A]
     @ ''      '' @ [CHR 0x22] @ ''id'' @ [CHR 0x22] @ '': '' @ [CHR 0x22] @ ''t1'' @ [CHR 0x22] @ '','' @ [CHR 0x0A]
     @ ''      '' @ [CHR 0x22] @ ''name'' @ [CHR 0x22] @ '': '' @ [CHR 0x22] @ ''Health'' @ [CHR 0x22] @ [CHR 0x0A]
     @ ''    }'' @ [CHR 0x0A]
     @ ''  ]'' @ [CHR 0x0A]
     @ ''}''"

text \<open>An environment in which only \<^verbatim>\<open>HABITICA_USER_ID\<close> is set.\<close>

definition only_user_id :: "string \<Rightarrow> string option" where
  "only_user_id k = (if k = ''HABITICA_USER_ID'' then Some ''u1'' else None)"

section \<open>Auxiliary facts\<close>

lemma string_of_nat_digit [simp]: "n < 10 \<Longrightarrow> string_of_nat n = [digit_char n]"
  by (subst string_of_nat.simps) simp

lemma string_of_nat_more [simp]:
  "10 \<le> n \<Longrightarrow> string_of_nat n = string_of_nat (n div 10) @ [digit_char (n mod 10)]"
  by (subst string_of_nat.simps) simp

lemma string_of_int_int [simp]: "string_of_int (int n) = string_of_nat n"
  by (simp add: string_of_int_def)

lemma andThen_Inl [simp]: "andThen (Inl e) f = Inl e"
  by (simp add: andThen_def)

lemma andThen_Inr [simp]: "andThen (Inr x) f = f x"
  by (simp add: andThen_def)

lemma case_labels_eq:
  "case_labels =
     [''get_user_profile'', ''get_tasks'', ''create_task'', ''score_task'', ''update_task'',
      ''delete_task'', ''get_stats'', ''buy_reward'', ''get_inventory'', ''cast_spell'',
      ''get_tags'', ''create_tag'', ''get_pets'', ''feed_pet'', ''hatch_pet'', ''get_mounts'',
      ''equip_item'', ''get_notifications'', ''read_notification'', ''get_shop'', ''buy_item'',
      ''get_task_checklist'', ''add_checklist_item'', ''update_checklist_item'',
      ''delete_checklist_item'', ''score_checklist_item'']"
  by (simp add: case_labels_def switch_cases_def)

lemma distinct_tool_names: "distinct tool_names"
  by (simp add: tool_names_def)

lemma distinct_case_labels: "distinct case_labels"
  by (simp add: case_labels_eq)

lemma set_case_labels: "set case_labels = set tool_names"
  unfolding case_labels_eq tool_names_def by (simp add: insert_commute)

lemma count_list_distinct: "distinct xs \<Longrightarrow> count_list xs x = (if x \<in> set xs then 1 else 0)"
  by (induction xs) auto

lemma map_of_switch_cases_None: "(map_of switch_cases name = None) = (name \<notin> set tool_names)"
  by (simp add: map_of_eq_None_iff set_case_labels [symmetric] case_labels_def)

lemma map_of_get_tags:
  "map_of switch_cases ''get_tags'' = Some (\<lambda>habiticaClient positive args. getTags habiticaClient)"
  by (simp add: switch_cases_def)

lemma getProp_field: "\<not> nullish v \<Longrightarrow> getProp v k = Inr (field v k)"
  by (cases v) (simp_all add: field_def)

lemma InternalError_numeral: "string_of_int (- 32603) = ''-32603''"
  by (simp add: string_of_int_def digit_char_def)

lemma errorMessage_priority:
  assumes "getProp error ''response'' = Inr response"
    and "getOptional response ''data'' = Inr data"
    and "getOptional data ''message'' = Inr remote_message"
    and "getProp error ''message'' = Inr generic_message"
  shows "errorMessage error =
           Inr (if truthy remote_message then remote_message
                else if truthy generic_message then generic_message
                else JStr ''Unknown error'')"
  using assms by (simp add: errorMessage_def js_or_def)

lemma checklist_line_spec: "\<not> nullish item \<Longrightarrow> checklist_line item = Inr (spec_checklist_line item)"
  by (simp add: checklist_line_def spec_checklist_line_def getProp_field)

lemma mapE_checklist_line:
  "\<forall>item \<in> set items. \<not> nullish item \<Longrightarrow>
     mapE checklist_line items = Inr (map spec_checklist_line items)"
  by (induction items) (simp_all add: checklist_line_spec)

lemma stringify_tags_body: "JSON_stringify tags_body = Some tags_text"
  by (simp add: JSON_stringify_def tags_body_def tags_text_def gap_def QuoteJSONString_def
        quote_char_def)

lemma tags_text_contains:
  "sublist ([CHR 0x22] @ ''t1'' @ [CHR 0x22]) tags_text"
  "sublist ([CHR 0x22] @ ''Health'' @ [CHR 0x22]) tags_text"
  unfolding tags_text_def
  by (simp_all add: sublist_Cons_right prefix_code)

lemma env_not_iff: "env_not v = (v = None \<or> v = Some [])"
  by (simp add: env_not_def split: option.splits)

lemma scoreTask_default_request:
  "scoreTask habiticaClient taskId JUndefined
     = andThen (habiticaClient POST (''/tasks/'' @ toString taskId @ ''/score/up'') JUndefined)
         (\<lambda>response. scoreTask (resolving_client response) taskId JUndefined)"
  by (cases "habiticaClient POST (''/tasks/'' @ toString taskId @ ''/score/up'') JUndefined")
     (simp_all add: scoreTask_def resolving_client_def)

lemma try_block_score_task:
  "try_block habiticaClient positive ''score_task'' args
     = andThen (getProp args ''taskId'') (\<lambda>a. andThen (getProp args ''direction'') (\<lambda>b.
         scoreTask habiticaClient a b))"
  by (simp add: try_block_def switch_cases_def)

lemma digit_char_not_X: "d < 10 \<Longrightarrow> digit_char d \<noteq> CHR ''X''"
proof -
  assume "d < 10"
  then have "d = 0 \<or> d = 1 \<or> d = 2 \<or> d = 3 \<or> d = 4 \<or> d = 5 \<or> d = 6 \<or> d = 7 \<or> d = 8 \<or> d = 9"
    by arith
  then show ?thesis
    by (auto simp: digit_char_def)
qed

lemma X_notin_string_of_nat: "CHR ''X'' \<notin> set (string_of_nat n)"
proof (induction n rule: string_of_nat.induct)
  case (1 n)
  show ?case
  proof (cases "n < 10")
    case True
    then show ?thesis using digit_char_not_X [of n] by auto
  next
    case False
    then show ?thesis using 1 digit_char_not_X [of "n mod 10"] by auto
  qed
qed

lemma X_notin_decimal: "CHR ''X'' \<notin> set (decimal_toString m e)"
  unfolding decimal_toString_def Let_def
  using X_notin_string_of_nat by (auto dest: in_set_takeD in_set_dropD)

lemma X_notin_number: "is_number v \<or> \<not> truthy v \<Longrightarrow> truthy v \<Longrightarrow> CHR ''X'' \<notin> set (toString v)"
  by (cases v) (simp_all add: string_of_int_def X_notin_string_of_nat Number_toString_def X_notin_decimal)

lemma sublist_needs_X: "CHR ''X'' \<notin> set message \<Longrightarrow> \<not> sublist ''Gained 0 XP'' message"
  using set_mono_sublist [of "''Gained 0 XP''" message] by auto

section \<open>The dispatcher\<close>

text \<open>
  C1, as the code has it. When the selected case throws a value that is not an McpError
  and on which \<^verbatim>\<open>response\<close> can be read (any value but \<^verbatim>\<open>undefined\<close> and
  \<^verbatim>\<open>null\<close>), the handler throws an McpError of kind InternalError. The message given
  to its constructor is \<^verbatim>\<open>Habitica API error: \<close> followed by the first truthy one of:
  the message nested in the remote response body, the message of the failure, the
  fallback \<^verbatim>\<open>Unknown error\<close>, converted to a string. The message of the error is
  therefore \<^verbatim>\<open>MCP error -32603: Habitica API error: \<close> followed by that string.
\<close>

theorem internal_error_message_priority:
  assumes "map_of switch_cases name = Some tool_case"
    and "tool_case habiticaClient positive args = Inl (Thrown error)"
    and "getProp error ''response'' = Inr response"
    and "getOptional response ''data'' = Inr data"
    and "getOptional data ''message'' = Inr remote_message"
    and "getProp error ''message'' = Inr generic_message"
    and "chosen = (if truthy remote_message then remote_message
                   else if truthy generic_message then generic_message
                   else JStr ''Unknown error'')"
    and "toString_exact chosen"
  shows "\<exists>thrown.
           CallTool habiticaClient positive name args = Inl thrown
           \<and> thrown = McpError InternalError (''Habitica API error: '' @ toString chosen)
           \<and> message_property thrown
               = Inr (JStr (''MCP error -32603: Habitica API error: '' @ toString chosen))"
  using assms(1,2,7) errorMessage_priority [OF assms(3-6)]
  by (simp add: CallTool_def try_block_def catch_block_def InternalError_numeral)

theorem internal_error_message_priority_witness:
  "map_of switch_cases ''get_tags'' = Some (\<lambda>habiticaClient positive args. getTags habiticaClient)
   \<and> getTags (rejecting_client (Thrown remote_error_X)) = Inl (Thrown remote_error_X)
   \<and> getProp remote_error_X ''response'' = Inr (JObj [(''data'', JObj [(''message'', JStr ''X'')])])
   \<and> getOptional (JObj [(''data'', JObj [(''message'', JStr ''X'')])]) ''data''
       = Inr (JObj [(''message'', JStr ''X'')])
   \<and> getOptional (JObj [(''message'', JStr ''X'')]) ''message'' = Inr (JStr ''X'')
   \<and> getProp remote_error_X ''message'' = Inr JUndefined
   \<and> JStr ''X'' = (if truthy (JStr ''X'') then JStr ''X''
                    else if truthy JUndefined then JUndefined else JStr ''Unknown error'')
   \<and> toString_exact (JStr ''X'')
   \<and> CallTool (rejecting_client (Thrown remote_error_X)) never_positive ''get_tags'' JUndefined
       = Inl (McpError InternalError ''Habitica API error: X'')
   \<and> message_property (McpError InternalError ''Habitica API error: X'')
       = Inr (JStr ''MCP error -32603: Habitica API error: X'')"
proof -
  have h1: "getTags (rejecting_client (Thrown remote_error_X)) = Inl (Thrown remote_error_X)"
    by (simp add: getTags_def rejecting_client_def)
  have h2: "getProp remote_error_X ''response'' = Inr (JObj [(''data'', JObj [(''message'', JStr ''X'')])])"
    by (simp add: remote_error_X_def)
  have h3: "getOptional (JObj [(''data'', JObj [(''message'', JStr ''X'')])]) ''data''
              = Inr (JObj [(''message'', JStr ''X'')])"
    by (simp add: getOptional_def)
  have h4: "getOptional (JObj [(''message'', JStr ''X'')]) ''message'' = Inr (JStr ''X'')"
    by (simp add: getOptional_def)
  have h5: "getProp remote_error_X ''message'' = Inr JUndefined"
    by (simp add: remote_error_X_def)
  have h6: "JStr ''X'' = (if truthy (JStr ''X'') then JStr ''X''
                    else if truthy JUndefined then JUndefined else JStr ''Unknown error'')"
    by simp
  have h7: "toString_exact (JStr ''X'')"
    by simp
  show ?thesis
    using internal_error_message_priority
            [where habiticaClient = "rejecting_client (Thrown remote_error_X)"
               and positive = never_positive and args = JUndefined,
             OF map_of_get_tags h1 h2 h3 h4 h5 h6 h7]
          map_of_get_tags h1 h2 h3 h4 h5
    by (simp add: InternalError_numeral)
qed

text \<open>
  C1 as stated fails: for the remote error \<^verbatim>\<open>{response: {data: {message: "X"}}}\<close> the
  message of the internal error is \<^verbatim>\<open>MCP error -32603: Habitica API error: X\<close>, not
  \<^verbatim>\<open>X\<close>.
\<close>

theorem internal_error_message_not_X:
  "CallTool (rejecting_client (Thrown remote_error_X)) never_positive ''get_tags'' JUndefined
     = Inl (McpError InternalError ''Habitica API error: X'')
   \<and> message_property (McpError InternalError ''Habitica API error: X'')
     = Inr (JStr ''MCP error -32603: Habitica API error: X'')
   \<and> message_property (McpError InternalError ''Habitica API error: X'') \<noteq> Inr (JStr ''X'')"
  by (simp add: CallTool_def try_block_def catch_block_def switch_cases_def getTags_def
        rejecting_client_def remote_error_X_def errorMessage_def getOptional_def js_or_def
        string_of_int_def digit_char_def)

text \<open>
  C2. The registry and the switch are in bijection: the descriptor names are distinct,
  the case labels are distinct, and they are the same names, so each descriptor name
  labels exactly one case and each case label names exactly one descriptor. A name
  reaches the default case exactly when it is not in the registry.
\<close>

theorem tools_switch_bijection:
  "distinct tool_names \<and> distinct case_labels \<and> set tool_names = set case_labels
   \<and> count_list case_labels name = (if name \<in> set tool_names then 1 else 0)
   \<and> count_list tool_names name = (if name \<in> set case_labels then 1 else 0)
   \<and> (map_of switch_cases name = None) = (name \<notin> set tool_names)"
  using distinct_tool_names distinct_case_labels set_case_labels map_of_switch_cases_None
  by (simp add: count_list_distinct)

text \<open>
  C3. A call with a name that is not in the registry fails with the MethodNotFound
  kind, never with InternalError, and its message ends with the offending name.
\<close>

theorem unknown_tool_method_not_found:
  "name \<notin> set tool_names \<Longrightarrow>
     CallTool habiticaClient positive name args
       = Inl (McpError MethodNotFound (''Unknown tool: '' @ name))
     \<and> (\<forall>message. CallTool habiticaClient positive name args
            \<noteq> Inl (McpError InternalError message))"
  by (simp add: CallTool_def try_block_def catch_block_def map_of_switch_cases_None [symmetric])

theorem unknown_tool_method_not_found_witness:
  "''does_not_exist'' \<notin> set tool_names
   \<and> CallTool (resolving_client JNull) never_positive ''does_not_exist'' JUndefined
       = Inl (McpError MethodNotFound ''Unknown tool: does_not_exist'')"
  using unknown_tool_method_not_found
          [where name = "''does_not_exist''" and habiticaClient = "resolving_client JNull"
             and positive = never_positive and args = JUndefined]
  by (simp add: tool_names_def)

text \<open>
  C4. When the selected case throws an McpError, the handler throws that same error:
  the same code and the same message, not wrapped into InternalError.
\<close>

theorem mcp_error_rethrown_unchanged:
  "map_of switch_cases name = Some tool_case \<Longrightarrow>
   tool_case habiticaClient positive args = Inl (McpError code message) \<Longrightarrow>
   CallTool habiticaClient positive name args = Inl (McpError code message)"
  by (simp add: CallTool_def try_block_def catch_block_def)

theorem mcp_error_rethrown_unchanged_witness:
  "map_of switch_cases ''get_tags'' = Some (\<lambda>habiticaClient positive args. getTags habiticaClient)
   \<and> getTags (rejecting_client (McpError InvalidParams ''bad'')) = Inl (McpError InvalidParams ''bad'')
   \<and> CallTool (rejecting_client (McpError InvalidParams ''bad'')) never_positive ''get_tags'' JUndefined
       = Inl (McpError InvalidParams ''bad'')"
proof -
  have h: "getTags (rejecting_client (McpError InvalidParams ''bad'')) = Inl (McpError InvalidParams ''bad'')"
    by (simp add: getTags_def rejecting_client_def)
  show ?thesis
    using mcp_error_rethrown_unchanged
            [OF map_of_get_tags, where habiticaClient = "rejecting_client (McpError InvalidParams ''bad'')"
               and positive = never_positive and args = JUndefined and code = InvalidParams
               and message = "''bad''"]
          h map_of_get_tags
    by simp
qed

section \<open>The handlers\<close>

text \<open>
  C5. When the request for the task succeeds and the checklist of the task is an array
  of items, or is absent (or any other falsy value), the result has exactly two text
  blocks: a header with the title of the task and the number of items, and then one line
  per item, joined by newlines, or the placeholder \<^verbatim>\<open>No checklist items found\<close> when
  there is no item.
\<close>

theorem getTaskChecklist_two_blocks:
  assumes "habiticaClient GET (''/tasks/'' @ toString taskId) JUndefined = Inr response"
    and "getPath response [''data'', ''data''] = Inr task"
    and "getProp task ''text'' = Inr title"
    and "getProp task ''checklist'' = Inr checklist"
    and "checklist = JArr items \<or> \<not> truthy checklist \<and> items = []"
    and "\<forall>item \<in> set items. \<not> nullish item"
  shows "getTaskChecklist habiticaClient positive taskId =
           Inr [TextContent (Some (''Task: '' @ toString title @ [CHR 0x0A] @ ''Checklist items (''
                                   @ string_of_nat (length items) @ ''):'')),
                TextContent (Some (if items = [] then ''No checklist items found''
                                   else join [CHR 0x0A] (map spec_checklist_line items)))]"
proof -
  have checklist: "js_or checklist (JArr []) = JArr items"
    using assms(5) by (auto simp: js_or_def)
  show ?thesis
    using assms(1-4) mapE_checklist_line [OF assms(6)]
    by (simp add: getTaskChecklist_def checklist checklist_map_def t_def)
qed

theorem getTaskChecklist_two_blocks_witness:
  "resolving_client sample_task_response GET (''/tasks/'' @ toString (JStr ''t9'')) JUndefined
     = Inr sample_task_response
   \<and> getPath sample_task_response [''data'', ''data''] = Inr sample_task
   \<and> getProp sample_task ''text'' = Inr (JStr ''Errands'')
   \<and> getProp sample_task ''checklist'' = Inr (JArr sample_items)
   \<and> list_all (\<lambda>item. \<not> nullish item) sample_items
   \<and> getTaskChecklist (resolving_client sample_task_response) never_positive (JStr ''t9'')
       = Inr [TextContent (Some (''Task: Errands'' @ [CHR 0x0A] @ ''Checklist items (2):'')),
              TextContent (Some (check_mark @ '' buy milk (ID: i1)'' @ [CHR 0x0A]
                                 @ white_circle @ '' call home (ID: i2)''))]"
proof -
  have h1: "resolving_client sample_task_response GET (''/tasks/'' @ toString (JStr ''t9'')) JUndefined
              = Inr sample_task_response"
    by (simp add: resolving_client_def)
  have h2: "getPath sample_task_response [''data'', ''data''] = Inr sample_task"
    by (simp add: sample_task_response_def)
  have h3: "getProp sample_task ''text'' = Inr (JStr ''Errands'')"
    by (simp add: sample_task_def)
  have h4: "getProp sample_task ''checklist'' = Inr (JArr sample_items)"
    by (simp add: sample_task_def)
  have h5: "JArr sample_items = JArr sample_items \<or> \<not> truthy (JArr sample_items) \<and> sample_items = []"
    by simp
  have h6: "\<forall>item \<in> set sample_items. \<not> nullish item"
    by (simp add: sample_items_def)
  have lines: "map spec_checklist_line sample_items
                 = [check_mark @ '' buy milk (ID: i1)'', white_circle @ '' call home (ID: i2)'']"
    by (simp add: sample_items_def spec_checklist_line_def field_def)
  have nonempty: "sample_items \<noteq> []" "length sample_items = 2"
    by (simp_all add: sample_items_def)
  show ?thesis
    using getTaskChecklist_two_blocks
            [where habiticaClient = "resolving_client sample_task_response" and taskId = "JStr ''t9''"
               and positive = never_positive, OF h1 h2 h3 h4 h5 h6]
          h1 h2 h3 h4 h6
    by (simp add: lines nonempty digit_char_def list_all_iff)
qed

text \<open>
  C6. When the body of the response to the scoring request has a \<^verbatim>\<open>data\<close> field with
  \<^verbatim>\<open>exp: 10\<close>, \<^verbatim>\<open>gp: 2\<close> and \<^verbatim>\<open>lvl: 5\<close>, the result is one text block that names
  the experience gained, the gold gained and the level reached.
\<close>

theorem scoreTask_confirmation:
  assumes "habiticaClient POST
             (''/tasks/'' @ toString taskId @ ''/score/''
              @ toString (if direction = JUndefined then JStr ''up'' else direction)) JUndefined
           = Inr response"
    and "getPath response [''data'', ''data''] = Inr result"
    and "getProp result ''exp'' = Inr (JNum 10)"
    and "getProp result ''gp'' = Inr (JNum 2)"
    and "getProp result ''lvl'' = Inr (JNum 5)"
  shows "scoreTask habiticaClient taskId direction =
           Inr [TextContent (Some ''Task completed! Gained 10 XP Gained 2 gold Leveled up to 5! '')]"
  using assms by (simp add: scoreTask_def Let_def string_of_int_def digit_char_def)

theorem scoreTask_confirmation_witness:
  "resolving_client sample_score_response POST
     (''/tasks/'' @ toString (JStr ''t9'') @ ''/score/''
      @ toString (if JStr ''up'' = JUndefined then JStr ''up'' else JStr ''up'')) JUndefined
     = Inr sample_score_response
   \<and> getPath sample_score_response [''data'', ''data'']
       = Inr (JObj [(''exp'', JNum 10), (''gp'', JNum 2), (''lvl'', JNum 5)])
   \<and> getProp (JObj [(''exp'', JNum 10), (''gp'', JNum 2), (''lvl'', JNum 5)]) ''exp'' = Inr (JNum 10)
   \<and> getProp (JObj [(''exp'', JNum 10), (''gp'', JNum 2), (''lvl'', JNum 5)]) ''gp'' = Inr (JNum 2)
   \<and> getProp (JObj [(''exp'', JNum 10), (''gp'', JNum 2), (''lvl'', JNum 5)]) ''lvl'' = Inr (JNum 5)
   \<and> scoreTask (resolving_client sample_score_response) (JStr ''t9'') (JStr ''up'')
       = Inr [TextContent (Some ''Task completed! Gained 10 XP Gained 2 gold Leveled up to 5! '')]"
proof -
  have h1: "resolving_client sample_score_response POST
     (''/tasks/'' @ toString (JStr ''t9'') @ ''/score/''
      @ toString (if JStr ''up'' = JUndefined then JStr ''up'' else JStr ''up'')) JUndefined
     = Inr sample_score_response"
    by (simp add: resolving_client_def)
  have h2: "getPath sample_score_response [''data'', ''data'']
       = Inr (JObj [(''exp'', JNum 10), (''gp'', JNum 2), (''lvl'', JNum 5)])"
    by (simp add: sample_score_response_def)
  have h3: "getProp (JObj [(''exp'', JNum 10), (''gp'', JNum 2), (''lvl'', JNum 5)]) ''exp'' = Inr (JNum 10)"
    by simp
  have h4: "getProp (JObj [(''exp'', JNum 10), (''gp'', JNum 2), (''lvl'', JNum 5)]) ''gp'' = Inr (JNum 2)"
    by simp
  have h5: "getProp (JObj [(''exp'', JNum 10), (''gp'', JNum 2), (''lvl'', JNum 5)]) ''lvl'' = Inr (JNum 5)"
    by simp
  show ?thesis
    using scoreTask_confirmation
            [where habiticaClient = "resolving_client sample_score_response"
               and taskId = "JStr ''t9''" and direction = "JStr ''up''", OF h1 h2 h3 h4 h5]
          h1 h2 h3 h4 h5
    by simp
qed

text \<open>
  C7. The single text block of \<^verbatim>\<open>get_tags\<close> is \<^verbatim>\<open>JSON.stringify\<close> of the whole
  response body with an indentation of two spaces; for the body
  \<^verbatim>\<open>{"data":[{"id":"t1","name":"Health"}]}\<close> the text contains \<^verbatim>\<open>"t1"\<close> and
  \<^verbatim>\<open>"Health"\<close>.
\<close>

theorem getTags_pretty_printed:
  "habiticaClient GET ''/tags'' JUndefined = Inr response \<Longrightarrow>
   getProp response ''data'' = Inr body \<Longrightarrow>
     getTags habiticaClient = Inr [TextContent (JSON_stringify body)]
     \<and> (body = tags_body \<longrightarrow>
          getTags habiticaClient = Inr [TextContent (Some tags_text)]
          \<and> sublist ([CHR 0x22] @ ''t1'' @ [CHR 0x22]) tags_text
          \<and> sublist ([CHR 0x22] @ ''Health'' @ [CHR 0x22]) tags_text)"
  using tags_text_contains by (simp add: getTags_def stringify_tags_body)

theorem getTags_pretty_printed_witness:
  "resolving_client (JObj [(''status'', JNum 200), (''data'', tags_body)]) GET ''/tags'' JUndefined
     = Inr (JObj [(''status'', JNum 200), (''data'', tags_body)])
   \<and> getProp (JObj [(''status'', JNum 200), (''data'', tags_body)]) ''data'' = Inr tags_body
   \<and> getTags (resolving_client (JObj [(''status'', JNum 200), (''data'', tags_body)]))
       = Inr [TextContent (Some tags_text)]"
proof -
  have h1: "resolving_client (JObj [(''status'', JNum 200), (''data'', tags_body)]) GET ''/tags'' JUndefined
     = Inr (JObj [(''status'', JNum 200), (''data'', tags_body)])"
    by (simp add: resolving_client_def)
  have h2: "getProp (JObj [(''status'', JNum 200), (''data'', tags_body)]) ''data'' = Inr tags_body"
    by simp
  show ?thesis
    using getTags_pretty_printed
            [where habiticaClient = "resolving_client (JObj [(''status'', JNum 200), (''data'', tags_body)])",
             OF h1 h2] h1 h2
    by (simp add: stringify_tags_body)
qed

text \<open>
  C9. Without a direction, \<^verbatim>\<open>scoreTask\<close> asks the client for
  \<^verbatim>\<open>POST /tasks/{taskId}/score/up\<close> and for nothing else: its outcome is the rejection
  of that request, or what it makes of the response to it. The switch passes no
  direction when \<^verbatim>\<open>args\<close> has none. The schema of \<^verbatim>\<open>direction\<close> in the registry
  declares no \<^verbatim>\<open>default\<close>.
\<close>

theorem scoreTask_direction_defaults_to_up:
  "scoreTask habiticaClient taskId JUndefined
     = andThen (habiticaClient POST (''/tasks/'' @ toString taskId @ ''/score/up'') JUndefined)
         (\<lambda>response. scoreTask (resolving_client response) taskId JUndefined)
   \<and> (getProp args ''taskId'' = Inr taskId \<longrightarrow> getProp args ''direction'' = Inr JUndefined \<longrightarrow>
        try_block habiticaClient positive ''score_task'' args
          = scoreTask habiticaClient taskId JUndefined)
   \<and> (\<exists>props. getPath score_task_descriptor [''inputSchema'', ''properties'', ''direction'']
                   = Inr (JObj props)
                \<and> map_of props ''default'' = None)"
  using scoreTask_default_request [of habiticaClient taskId]
  by (simp add: try_block_score_task score_task_descriptor_def)

theorem scoreTask_direction_defaults_to_up_witness:
  "getProp (JObj [(''taskId'', JStr ''t9'')]) ''taskId'' = Inr (JStr ''t9'')
   \<and> getProp (JObj [(''taskId'', JStr ''t9'')]) ''direction'' = Inr JUndefined
   \<and> try_block echo_client never_positive ''score_task'' (JObj [(''taskId'', JStr ''t9'')])
       = Inl (Thrown (ErrorObject ''/tasks/t9/score/up''))"
  using scoreTask_direction_defaults_to_up
          [where habiticaClient = echo_client and taskId = "JStr ''t9''"
             and args = "JObj [(''taskId'', JStr ''t9'')]" and positive = never_positive]
  by (simp add: echo_client_def)

text \<open>
  C10, as the code has it. For values of \<^verbatim>\<open>exp\<close>, \<^verbatim>\<open>gp\<close> and \<^verbatim>\<open>lvl\<close> whose
  conversion to a string does not throw, the confirmation of \<^verbatim>\<open>scoreTask\<close> is the
  fixed opening followed by the phrase of each field whose value is truthy; the phrase
  of a falsy value, such as 0 or an absent field, is left out. So with \<^verbatim>\<open>exp\<close> 0 or
  absent the text is the opening and the phrases of \<^verbatim>\<open>gp\<close> and \<^verbatim>\<open>lvl\<close> alone, and
  when these two are Numbers or falsy it has no fragment \<^verbatim>\<open>Gained 0 XP\<close>.
\<close>

theorem scoreTask_phrases_only_for_truthy_fields:
  assumes "habiticaClient POST
             (''/tasks/'' @ toString taskId @ ''/score/''
              @ toString (if direction = JUndefined then JStr ''up'' else direction)) JUndefined
           = Inr response"
    and "getPath response [''data'', ''data''] = Inr result"
    and "getProp result ''exp'' = Inr exp"
    and "getProp result ''gp'' = Inr gp"
    and "getProp result ''lvl'' = Inr lvl"
    and "toString_exact exp" and "toString_exact gp" and "toString_exact lvl"
  shows "\<exists>message.
           scoreTask habiticaClient taskId direction = Inr [TextContent (Some message)]
           \<and> message = ''Task completed! ''
                @ (if truthy exp then ''Gained '' @ toString exp @ '' XP '' else [])
                @ (if truthy gp then ''Gained '' @ toString gp @ '' gold '' else [])
                @ (if truthy lvl then ''Leveled up to '' @ toString lvl @ ''! '' else [])
           \<and> (exp = JNum 0 \<or> exp = JUndefined \<longrightarrow>
                message = ''Task completed! ''
                  @ (if truthy gp then ''Gained '' @ toString gp @ '' gold '' else [])
                  @ (if truthy lvl then ''Leveled up to '' @ toString lvl @ ''! '' else []))
           \<and> (\<not> truthy exp \<longrightarrow> (is_number gp \<or> \<not> truthy gp) \<longrightarrow> (is_number lvl \<or> \<not> truthy lvl)
                \<longrightarrow> \<not> sublist ''Gained 0 XP'' message)"
proof -
  let ?message = "''Task completed! ''
                @ (if truthy exp then ''Gained '' @ toString exp @ '' XP '' else [])
                @ (if truthy gp then ''Gained '' @ toString gp @ '' gold '' else [])
                @ (if truthy lvl then ''Leveled up to '' @ toString lvl @ ''! '' else [])"
  have result: "scoreTask habiticaClient taskId direction = Inr [TextContent (Some ?message)]"
    using assms(1-5) by (simp add: scoreTask_def Let_def)
  have omitted: "?message = ''Task completed! ''
                  @ (if truthy gp then ''Gained '' @ toString gp @ '' gold '' else [])
                  @ (if truthy lvl then ''Leveled up to '' @ toString lvl @ ''! '' else [])"
    if "exp = JNum 0 \<or> exp = JUndefined"
    using that by auto
  have no_X: "CHR ''X'' \<notin> set ?message"
    if "\<not> truthy exp" "is_number gp \<or> \<not> truthy gp" "is_number lvl \<or> \<not> truthy lvl"
    using that X_notin_number [of gp] X_notin_number [of lvl] by auto
  show ?thesis
    using result omitted no_X sublist_needs_X [of ?message] by blast
qed

theorem scoreTask_phrases_only_for_truthy_fields_witness:
  "resolving_client fractional_gp_response POST
     (''/tasks/'' @ toString (JStr ''t9'') @ ''/score/''
      @ toString (if JUndefined = JUndefined then JStr ''up'' else JUndefined)) JUndefined
     = Inr fractional_gp_response
   \<and> getPath fractional_gp_response [''data'', ''data''] = Inr fractional_gp_result
   \<and> getProp fractional_gp_result ''exp'' = Inr (JNum 0)
   \<and> getProp fractional_gp_result ''gp'' = Inr (JDecimal False 25 (- 1))
   \<and> getProp fractional_gp_result ''lvl'' = Inr JUndefined
   \<and> toString_exact (JNum 0) \<and> toString_exact (JDecimal False 25 (- 1)) \<and> toString_exact JUndefined
   \<and> is_number (JDecimal False 25 (- 1))
   \<and> scoreTask (resolving_client fractional_gp_response) (JStr ''t9'') JUndefined
       = Inr [TextContent (Some ''Task completed! Gained 2.5 gold '')]
   \<and> \<not> sublist ''Gained 0 XP'' ''Task completed! Gained 2.5 gold ''"
proof -
  have h1: "resolving_client fractional_gp_response POST
     (''/tasks/'' @ toString (JStr ''t9'') @ ''/score/''
      @ toString (if JUndefined = JUndefined then JStr ''up'' else JUndefined)) JUndefined
     = Inr fractional_gp_response"
    by (simp add: resolving_client_def)
  have h2: "getPath fractional_gp_response [''data'', ''data''] = Inr fractional_gp_result"
    by (simp add: fractional_gp_response_def)
  have h3: "getProp fractional_gp_result ''exp'' = Inr (JNum 0)"
    by (simp add: fractional_gp_result_def)
  have h4: "getProp fractional_gp_result ''gp'' = Inr (JDecimal False 25 (- 1))"
    by (simp add: fractional_gp_result_def)
  have h5: "getProp fractional_gp_result ''lvl'' = Inr JUndefined"
    by (simp add: fractional_gp_result_def)
  have h6: "toString_exact (JNum 0)" by simp
  have h7: "toString_exact (JDecimal False 25 (- 1))" by simp
  have h8: "toString_exact JUndefined" by simp
  have print: "Number_toString False 25 (- 1) = ''2.5''"
    by (simp add: Number_toString_def decimal_toString_def digit_char_def)
  show ?thesis
    using scoreTask_phrases_only_for_truthy_fields
            [where habiticaClient = "resolving_client fractional_gp_response" and taskId = "JStr ''t9''"
               and direction = JUndefined, OF h1 h2 h3 h4 h5 h6 h7 h8]
          h1 h2 h3 h4 h5 h7
    by (auto simp: print)
qed

text \<open>
  C10 as stated fails: a response with \<^verbatim>\<open>exp: 0\<close> whose \<^verbatim>\<open>gp\<close> is the string
  \<^verbatim>\<open>"0 XP"\<close> gives a text with the fragment \<^verbatim>\<open>Gained 0 XP\<close>, which comes from the
  phrase of \<^verbatim>\<open>gp\<close>.
\<close>

theorem scoreTask_zero_exp_fragment_from_gp:
  "getPath string_gp_response [''data'', ''data''] = Inr string_gp_result
   \<and> getProp string_gp_result ''exp'' = Inr (JNum 0)
   \<and> scoreTask (resolving_client string_gp_response) (JStr ''t9'') JUndefined
       = Inr [TextContent (Some ''Task completed! Gained 0 XP gold '')]
   \<and> sublist ''Gained 0 XP'' ''Task completed! Gained 0 XP gold ''"
proof -
  have "''Task completed! Gained 0 XP gold '' = ''Task completed! '' @ ''Gained 0 XP'' @ '' gold ''"
    by simp
  then have "sublist ''Gained 0 XP'' ''Task completed! Gained 0 XP gold ''"
    using sublist_appendI [of "''Gained 0 XP''" "''Task completed! ''" "'' gold ''"] by simp
  then show ?thesis
    by (simp add: scoreTask_def resolving_client_def string_gp_response_def string_gp_result_def)
qed

section \<open>Startup\<close>

text \<open>
  C8. When \<^verbatim>\<open>HABITICA_USER_ID\<close> or \<^verbatim>\<open>HABITICA_API_TOKEN\<close> is unset or empty, the
  process writes the diagnostic and exits with code 1, and that is all it does: no HTTP
  client is created and no connection is opened.
\<close>

theorem startup_without_credentials_exits:
  "env ''HABITICA_USER_ID'' = None \<or> env ''HABITICA_USER_ID'' = Some []
   \<or> env ''HABITICA_API_TOKEN'' = None \<or> env ''HABITICA_API_TOKEN'' = Some [] \<Longrightarrow>
     effects (startup toLowerCase env connect)
       = [ConsoleError ''Error: Please set HABITICA_USER_ID and HABITICA_API_TOKEN environment variables'',
          ProcessExit 1]
     \<and> (\<forall>baseURL headers. AxiosCreate baseURL headers \<notin> set (effects (startup toLowerCase env connect)))
     \<and> ServerConnect \<notin> set (effects (startup toLowerCase env connect))"
  by (auto simp: startup_def Let_def env_not_iff t_def)

theorem startup_without_credentials_exits_witness:
  "(only_user_id ''HABITICA_USER_ID'' = None \<or> only_user_id ''HABITICA_USER_ID'' = Some []
    \<or> only_user_id ''HABITICA_API_TOKEN'' = None \<or> only_user_id ''HABITICA_API_TOKEN'' = Some [])
   \<and> effects (startup id only_user_id (Inr ()))
       = [ConsoleError ''Error: Please set HABITICA_USER_ID and HABITICA_API_TOKEN environment variables'',
          ProcessExit 1]"
proof -
  have h: "only_user_id ''HABITICA_USER_ID'' = None \<or> only_user_id ''HABITICA_USER_ID'' = Some []
    \<or> only_user_id ''HABITICA_API_TOKEN'' = None \<or> only_user_id ''HABITICA_API_TOKEN'' = Some []"
    by (simp add: only_user_id_def)
  show ?thesis
    using startup_without_credentials_exits [where env = only_user_id and toLowerCase = id and connect = "Inr ()", OF h] h
    by simp
qed

end
